theory Spec2Isabelle
  imports Complex_Main
begin

section \<open>Orbital camera and hotspot geodesy of the globe interface\<close>

text \<open>
  The definitions follow \<^verbatim>\<open>src/assets/index-Ien1UOMZ.js\<close>: the globe manager (class
  \<^verbatim>\<open>le\<close>, with its \<^verbatim>\<open>orbitParams\<close>) and the interaction manager (class \<^verbatim>\<open>de\<close>, the
  wheel and keyboard handlers). JavaScript numbers are modelled as real numbers, so
  rounding is left out and only the formulas of the code are compared; \<^verbatim>\<open>NaN\<close> is
  written out as \<open>None\<close> where the code can produce it.
\<close>

subsection \<open>Numbers and vectors\<close>

text \<open>\<^verbatim>\<open>Math.atan2(y, x)\<close> on real numbers (signed zeros are not distinguished).\<close>

definition atan2 :: "real \<Rightarrow> real \<Rightarrow> real" where
  "atan2 y x =
     (if 0 < x then arctan (y / x)
      else if x < 0 then (if 0 \<le> y then arctan (y / x) + pi else arctan (y / x) - pi)
      else if 0 < y then pi / 2
      else if y < 0 then - (pi / 2)
      else 0)"

text \<open>\<^verbatim>\<open>Math.acos\<close>: \<^verbatim>\<open>NaN\<close> outside \<open>[-1, 1]\<close>.\<close>

definition Math_acos :: "real \<Rightarrow> real option" where
  "Math_acos x = (if - 1 \<le> x \<and> x \<le> 1 then Some (arccos x) else None)"

text \<open>
  \<^verbatim>\<open>Math.pow(x, y)\<close> for a base \<open>x \<ge> 0\<close>: \<^verbatim>\<open>Math.pow(x, 0)\<close> is 1 for every \<open>x\<close>, also for
  0, where \<open>powr\<close> gives 0. (A negative base with a fractional exponent is \<^verbatim>\<open>NaN\<close> in
  JavaScript; the code only raises the two speed factors of the constructor, which are
  positive.)
\<close>

definition Math_pow :: "real \<Rightarrow> real \<Rightarrow> real" where
  "Math_pow x y = (if y = 0 then 1 else x powr y)"

text \<open>The \<^verbatim>\<open>Vector3\<close> of the rendering library, with the methods the code uses.\<close>

datatype vec3 = Vec3 (vx: real) (vy: real) (vz: real)

definition vec_length :: "vec3 \<Rightarrow> real" where
  "vec_length v = sqrt (vx v * vx v + vy v * vy v + vz v * vz v)"

definition multiplyScalar :: "vec3 \<Rightarrow> real \<Rightarrow> vec3" where
  "multiplyScalar v k = Vec3 (vx v * k) (vy v * k) (vz v * k)"

text \<open>\<^verbatim>\<open>normalize()\<close> divides by \<^verbatim>\<open>length() || 1\<close>.\<close>

definition normalize :: "vec3 \<Rightarrow> vec3" where
  "normalize v =
     (let l = (if vec_length v = 0 then 1 else vec_length v)
      in Vec3 (vx v / l) (vy v / l) (vz v / l))"

definition distanceTo :: "vec3 \<Rightarrow> vec3 \<Rightarrow> real" where
  "distanceTo a b =
     sqrt ((vx a - vx b)\<^sup>2 + (vy a - vy b)\<^sup>2 + (vz a - vz b)\<^sup>2)"

definition subVectors :: "vec3 \<Rightarrow> vec3 \<Rightarrow> vec3" where
  "subVectors a b = Vec3 (vx a - vx b) (vy a - vy b) (vz a - vz b)"

definition dot :: "vec3 \<Rightarrow> vec3 \<Rightarrow> real" where
  "dot a b = vx a * vx b + vy a * vy b + vz a * vz b"

subsection \<open>Hotspots and the geodesy conversions\<close>

record geo_position =
  lat :: real
  lng :: real

record hotspot =
  hotspot_id :: string
  title :: string
  position :: geo_position

text \<open>
  Latitude/longitude to a point at radius 2.1, as \<^verbatim>\<open>addHotspots\<close> places a marker and as
  \<^verbatim>\<open>activateHotspot\<close> computes the focus direction (the same three lines in both).
\<close>

definition geoToSurface :: "geo_position \<Rightarrow> vec3" where
  "geoToSurface g =
     (let n = lat g * (pi / 180);
          s = lng g * (pi / 180);
          a = 2.1
      in Vec3 (a * cos n * cos s) (a * sin n) (a * cos n * sin s))"

text \<open>
  A picked point of the globe to latitude/longitude, as \<^verbatim>\<open>onMouseClick\<close> does:
  \<^verbatim>\<open>s = acos(o.y/2)\<close>, \<^verbatim>\<open>a = atan2(o.z, o.x)\<close>, \<^verbatim>\<open>lat = 90 - s*180/PI\<close>,
  \<^verbatim>\<open>lng = a*180/PI - 180\<close>. The latitude is \<open>None\<close> when the arc cosine is \<^verbatim>\<open>NaN\<close>.
\<close>

definition surfaceToGeo :: "vec3 \<Rightarrow> real option \<times> real" where
  "surfaceToGeo p =
     (let s = Math_acos (vy p / 2);
          a = atan2 (vz p) (vx p);
          r = map_option (\<lambda>s. 90 - s * 180 / pi) s;
          c = a * 180 / pi - 180
      in (r, c))"

subsection \<open>Orbit parameters, camera, animations and timers\<close>

text \<open>The \<^verbatim>\<open>orbitParams\<close> object of the globe manager, field by field.\<close>

record orbit_params =
  isOrbiting :: bool
  baseSpeed :: real
  currentSpeed :: real
  maxSpeed :: real
  accelerationFactor :: real
  decelerationFactor :: real
  ellipseMajorAxis :: real
  ellipseMinorAxis :: real
  inclination :: real
  orbitAngle :: real
  zoomLevel :: real
  maxZoomLevel :: real
  minZoomLevel :: real
  inHotspotMode :: bool
  orbitHistory :: "vec3 list"

text \<open>
  The animations that the code starts with the animation library's \<^verbatim>\<open>to(target, vars)\<close>:
  on the camera position (target point, duration, and for the focus animation the
  hotspot its \<^verbatim>\<open>onComplete\<close> handles), on the field of view (target, duration), and on
  \<^verbatim>\<open>orbitParams.currentSpeed\<close> (target; the start value is recorded by the library at
  the first rendered frame, \<open>None\<close> before). The library is not part of the sources: a
  tween is taken to set the property to \<open>from + (to - from) * ease ratio\<close> at each
  rendered frame and to the target at the end. The frames of the speed tween are
  modelled; of the camera and field-of-view tweens only the end is.
\<close>

datatype tween =
    CameraPositionTween vec3 real "hotspot option"
  | CameraFovTween real real
  | SpeedTween "real option" real

text \<open>The callbacks that the code passes to \<^verbatim>\<open>setTimeout\<close>.\<close>

datatype timeout =
    ExitHotspotTimeout
  | RestoreOrbitingTimeout bool
  | ScrollQuietTimeout

text \<open>
  The state: the globe manager's orbit parameters, camera, hotspot catalogue, running
  tweens, pending timers, the scan effects and page redirects it has started, and the
  three fields of the interaction manager that the wheel handler uses.
\<close>

record globe_state =
  orbitParams :: orbit_params
  cameraPosition :: vec3
  cameraFov :: real
  hotspotObjects :: "hotspot list"
  tweens :: "tween list"
  timeouts :: "(nat \<times> timeout) list"
  nextTimeoutId :: nat
  scanEffects :: "geo_position list"
  redirects :: "hotspot list"
  scrollAccumulator :: real
  lastScrollTime :: real
  scrollTimerId :: "nat option"

definition setTimeout :: "timeout \<Rightarrow> globe_state \<Rightarrow> nat \<times> globe_state" where
  "setTimeout cb s =
     (nextTimeoutId s,
      s\<lparr>timeouts := timeouts s @ [(nextTimeoutId s, cb)],
        nextTimeoutId := Suc (nextTimeoutId s)\<rparr>)"

definition clearTimeout :: "nat \<Rightarrow> globe_state \<Rightarrow> globe_state" where
  "clearTimeout i s = s\<lparr>timeouts := filter (\<lambda>(j, cb). j \<noteq> i) (timeouts s)\<rparr>"

subsection \<open>Camera on the orbit\<close>

text \<open>
  \<^verbatim>\<open>updateCameraPosition\<close>, called by every animation frame: nothing unless
  \<^verbatim>\<open>isOrbiting\<close>; the camera is put on the tilted ellipse, then the angle advances by
  the current speed and the position is appended to the history, which keeps its last
  100 entries. (The source's variable \<^verbatim>\<open>o\<close> is written \<open>z\<close> here and below.)
\<close>

definition updateCameraPosition :: "globe_state \<Rightarrow> globe_state" where
  "updateCameraPosition s =
     (let q = orbitParams s in
      if \<not> isOrbiting q then s
      else
        let e = ellipseMajorAxis q * zoomLevel q;
            t = ellipseMinorAxis q * zoomLevel q;
            i = e * cos (orbitAngle q);
            z = t * sin (orbitAngle q);
            n = inclination q;
            s' = z * sin n;
            z' = z * cos n;
            h = orbitHistory q @ [Vec3 i s' z']
        in s\<lparr>cameraPosition := Vec3 i s' z',
             orbitParams := q\<lparr>orbitAngle := orbitAngle q + currentSpeed q,
                                orbitHistory := (if length h > 100 then tl h else h)\<rparr>\<rparr>)"

text \<open>\<^verbatim>\<open>_updateCameraPositionManual\<close>, called by the arrow-key navigation.\<close>

definition updateCameraPositionManual :: "globe_state \<Rightarrow> globe_state" where
  "updateCameraPositionManual s =
     (let q = orbitParams s;
          e = ellipseMajorAxis q * zoomLevel q;
          t = ellipseMinorAxis q * zoomLevel q;
          i = e * cos (orbitAngle q);
          z = t * sin (orbitAngle q);
          n = inclination q;
          s' = z * sin n;
          z' = z * cos n
      in s\<lparr>cameraPosition := Vec3 i s' z'\<rparr>)"

text \<open>\<^verbatim>\<open>animate\<close>: the part of a frame that touches the orbit.\<close>

definition animate :: "globe_state \<Rightarrow> globe_state" where
  "animate s =
     (if isOrbiting (orbitParams s) \<and> \<not> inHotspotMode (orbitParams s)
      then updateCameraPosition s else s)"

text \<open>
  \<^verbatim>\<open>zoom(e)\<close>: the step factor is 0.85 to zoom in and 1.15 to zoom out; the zoom level is
  multiplied and clamped, and a camera tween to the scaled position starts.
\<close>

definition zoom :: "bool \<Rightarrow> globe_state \<Rightarrow> globe_state" where
  "zoom e s =
     (let q = orbitParams s;
          t = (if e then 0.85 else 1.15);
          i = zoomLevel q * t
      in s\<lparr>orbitParams := q\<lparr>zoomLevel := min (max i (minZoomLevel q)) (maxZoomLevel q)\<rparr>,
           tweens := tweens s @
             [CameraPositionTween
                (Vec3 (vx (cameraPosition s) * t) (vy (cameraPosition s) * t)
                      (vz (cameraPosition s) * t)) 0.5 None]\<rparr>)"

definition resetView :: "globe_state \<Rightarrow> globe_state" where
  "resetView s =
     (let q = (orbitParams s)\<lparr>zoomLevel := 1, currentSpeed := baseSpeed (orbitParams s)\<rparr>;
          e = ellipseMajorAxis q;
          t = ellipseMinorAxis q;
          i = inclination q;
          z = orbitAngle q;
          n = e * cos z;
          s' = t * sin z;
          a = s' * sin i;
          r = s' * cos i
      in s\<lparr>orbitParams := q,
           tweens := tweens s @ [CameraPositionTween (Vec3 n a r) 1 None]\<rparr>)"

subsection \<open>Focus on a hotspot\<close>

text \<open>
  \<^verbatim>\<open>activateHotspot(e)\<close>: returns at once when \<^verbatim>\<open>inHotspotMode\<close> is set; otherwise it
  starts the scan effect, stops the orbit and starts the 1.5 s camera and field-of-view
  tweens. \<^verbatim>\<open>inHotspotMode\<close> is set by the camera tween's \<^verbatim>\<open>onComplete\<close>, which also
  calls \<^verbatim>\<open>_redirectToExternalPage\<close>.
\<close>

definition activateHotspot :: "hotspot \<Rightarrow> globe_state \<Rightarrow> globe_state" where
  "activateHotspot e s =
     (if inHotspotMode (orbitParams s) then s
      else
        let r = geoToSurface (position e);
            u = multiplyScalar (normalize r) 3.5
        in s\<lparr>scanEffects := scanEffects s @ [position e],
             orbitParams := (orbitParams s)\<lparr>isOrbiting := False\<rparr>,
             tweens := tweens s @ [CameraPositionTween u 1.5 (Some e), CameraFovTween 40 1.5]\<rparr>)"

definition activateHotspot_onComplete :: "hotspot \<Rightarrow> globe_state \<Rightarrow> globe_state" where
  "activateHotspot_onComplete e s =
     s\<lparr>orbitParams := (orbitParams s)\<lparr>inHotspotMode := True\<rparr>,
       redirects := redirects s @ [e]\<rparr>"

text \<open>
  \<^verbatim>\<open>exitHotspotMode\<close>: only in hotspot mode; clears the flag, starts the field-of-view
  tween back to 60 and a 500 ms timer that resumes the orbit at the base speed.
\<close>

definition exitHotspotMode :: "globe_state \<Rightarrow> globe_state" where
  "exitHotspotMode s =
     (if inHotspotMode (orbitParams s)
      then snd (setTimeout ExitHotspotTimeout
             (s\<lparr>orbitParams := (orbitParams s)\<lparr>inHotspotMode := False\<rparr>,
                tweens := tweens s @ [CameraFovTween 60 1]\<rparr>))
      else s)"

text \<open>
  \<^verbatim>\<open>_findNearestHotspot(e, t, i)\<close>: the loop keeps the closest hotspot nearer than the
  running bound. A \<^verbatim>\<open>NaN\<close> latitude makes every comparison false.
\<close>

fun findNearestHotspot_loop ::
  "real option \<Rightarrow> real \<Rightarrow> hotspot list \<Rightarrow> hotspot option \<times> real \<Rightarrow> hotspot option \<times> real" where
  "findNearestHotspot_loop e t [] (z, n) = (z, n)"
| "findNearestHotspot_loop e t (a # as) (z, n) =
     (case e of
        None \<Rightarrow> findNearestHotspot_loop e t as (z, n)
      | Some e' \<Rightarrow>
          (let r = lat (position a);
               c = lng (position a);
               p = sqrt ((r - e')\<^sup>2 + (c - t)\<^sup>2)
           in if p < n then findNearestHotspot_loop e t as (Some a, p)
              else findNearestHotspot_loop e t as (z, n)))"

definition findNearestHotspot ::
  "globe_state \<Rightarrow> real option \<Rightarrow> real \<Rightarrow> real \<Rightarrow> hotspot option" where
  "findNearestHotspot s e t i = fst (findNearestHotspot_loop e t (hotspotObjects s) (None, i))"

text \<open>
  \<^verbatim>\<open>onMouseClick\<close>: the two ray casts belong to the rendering library, so their results
  are arguments: the picked point of the globe, and the hotspot of the picked marker.
\<close>

definition onMouseClick :: "vec3 option \<Rightarrow> hotspot option \<Rightarrow> globe_state \<Rightarrow> globe_state" where
  "onMouseClick t i s =
     (if inHotspotMode (orbitParams s) then s
      else
        let p = (case t of
                   None \<Rightarrow> None
                 | Some z \<Rightarrow> (let (r, c) = surfaceToGeo z in findNearestHotspot s r c 10))
        in case p of
             Some h \<Rightarrow> activateHotspot h s
           | None \<Rightarrow> (case i of Some z \<Rightarrow> activateHotspot z s | None \<Rightarrow> s))"

subsection \<open>Scroll wheel, keyboard, timers and tweens\<close>

text \<open>
  \<^verbatim>\<open>handleMouseWheel\<close>, with \<^verbatim>\<open>e.deltaY\<close> and \<^verbatim>\<open>Date.now()\<close> as arguments. In hotspot mode
  the wheel zooms. Otherwise the delta is accumulated; an event less than 50 ms after
  the previous one, with the quiet timer pending, only accumulates. A processed batch
  adjusts the speed from the sign and the capped size of the accumulated delta, clears
  the accumulator and restarts the 3 s quiet timer.
\<close>

definition handleMouseWheel :: "real \<Rightarrow> real \<Rightarrow> globe_state \<Rightarrow> globe_state" where
  "handleMouseWheel deltaY now s =
     (if inHotspotMode (orbitParams s) then zoom (deltaY < 0) s
      else
        let i = now - lastScrollTime s;
            s1 = s\<lparr>lastScrollTime := now, scrollAccumulator := scrollAccumulator s + deltaY\<rparr>
        in if i < 50 \<and> scrollTimerId s1 \<noteq> None then s1
           else
             let s2 = (case scrollTimerId s1 of Some k \<Rightarrow> clearTimeout k s1 | None \<Rightarrow> s1);
                 q = orbitParams s2;
                 sgn_acc = sgn (scrollAccumulator s2);
                 n = min (\<bar>scrollAccumulator s2\<bar> / 100) 2;
                 q' = (if sgn_acc > 0
                       then q\<lparr>currentSpeed :=
                              max (baseSpeed q * 0.5)
                                  (currentSpeed q * Math_pow (decelerationFactor q) n)\<rparr>
                       else q\<lparr>currentSpeed :=
                              min (maxSpeed q)
                                  (currentSpeed q * Math_pow (accelerationFactor q) n)\<rparr>);
                 (k, s3) = setTimeout ScrollQuietTimeout
                             (s2\<lparr>orbitParams := q', scrollAccumulator := 0\<rparr>)
             in s3\<lparr>scrollTimerId := Some k\<rparr>)"

text \<open>The bodies of the three timer callbacks.\<close>

fun run_timeout :: "timeout \<Rightarrow> globe_state \<Rightarrow> globe_state" where
  "run_timeout ExitHotspotTimeout s =
     s\<lparr>orbitParams := (orbitParams s)\<lparr>isOrbiting := True,
                                       currentSpeed := baseSpeed (orbitParams s)\<rparr>\<rparr>"
| "run_timeout (RestoreOrbitingTimeout i) s =
     s\<lparr>orbitParams := (orbitParams s)\<lparr>isOrbiting := i\<rparr>\<rparr>"
| "run_timeout ScrollQuietTimeout s =
     s\<lparr>tweens := tweens s @ [SpeedTween None (baseSpeed (orbitParams s))],
       scrollTimerId := None\<rparr>"

text \<open>A pending timer fires: it leaves the pending list and its callback runs.\<close>

definition fire_timeout :: "nat \<Rightarrow> globe_state \<Rightarrow> globe_state" where
  "fire_timeout i s =
     (case map_of (timeouts s) i of
        None \<Rightarrow> s
      | Some cb \<Rightarrow> run_timeout cb (clearTimeout i s))"

text \<open>
  The ease \<^verbatim>\<open>power2.out\<close> of the speed tween, a cubic ease-out, on the progress ratio
  clamped to \<open>[0, 1]\<close>.
\<close>

definition power2_out :: "real \<Rightarrow> real" where
  "power2_out r = (let c = min 1 (max 0 r) in 1 - (1 - c) ^ 3)"

definition remove_nth :: "nat \<Rightarrow> 'a list \<Rightarrow> 'a list" where
  "remove_nth i xs = take i xs @ drop (Suc i) xs"

text \<open>
  A rendered frame of the \<open>i\<close>-th running tween at progress ratio \<open>r\<close> (elapsed time over
  duration). At \<open>r \<ge> 1\<close> the tween sets its target, leaves the list and its
  \<^verbatim>\<open>onComplete\<close> runs.
\<close>

definition tween_tick :: "nat \<Rightarrow> real \<Rightarrow> globe_state \<Rightarrow> globe_state" where
  "tween_tick i r s =
     (if length (tweens s) \<le> i then s
      else case tweens s ! i of
        SpeedTween from_opt to \<Rightarrow>
          (let from = (case from_opt of None \<Rightarrow> currentSpeed (orbitParams s) | Some f \<Rightarrow> f);
               v = from + (to - from) * power2_out r;
               s1 = s\<lparr>orbitParams := (orbitParams s)\<lparr>currentSpeed := v\<rparr>\<rparr>
           in if 1 \<le> r then s1\<lparr>tweens := remove_nth i (tweens s)\<rparr>
              else s1\<lparr>tweens := (tweens s)[i := SpeedTween (Some from) to]\<rparr>)
      | CameraPositionTween target d cb \<Rightarrow>
          (if 1 \<le> r
           then (let s1 = s\<lparr>cameraPosition := target, tweens := remove_nth i (tweens s)\<rparr>
                 in case cb of None \<Rightarrow> s1 | Some e \<Rightarrow> activateHotspot_onComplete e s1)
           else s)
      | CameraFovTween target d \<Rightarrow>
          (if 1 \<le> r then s\<lparr>cameraFov := target, tweens := remove_nth i (tweens s)\<rparr>
           else s))"

datatype key =
    Escape | ArrowUp | ArrowDown | ArrowLeft | ArrowRight
  | ZoomInKey | ZoomOutKey | ResetKey | OtherKey

text \<open>
  \<^verbatim>\<open>handleArrowNavigation\<close>: the orbit is suspended, the angle or the inclination is
  nudged, the camera is recomputed at once, and a 500 ms timer restores the saved
  \<^verbatim>\<open>isOrbiting\<close>.
\<close>

definition handleArrowNavigation :: "key \<Rightarrow> globe_state \<Rightarrow> globe_state" where
  "handleArrowNavigation e s =
     (let q = orbitParams s;
          i = isOrbiting q;
          q1 = q\<lparr>isOrbiting := False\<rparr>;
          q2 = (case e of
                  ArrowLeft \<Rightarrow> q1\<lparr>orbitAngle := orbitAngle q1 + 0.05\<rparr>
                | ArrowRight \<Rightarrow> q1\<lparr>orbitAngle := orbitAngle q1 - 0.05\<rparr>
                | ArrowUp \<Rightarrow>
                    (if \<not> inHotspotMode q1
                     then q1\<lparr>inclination := min (inclination q1 + 0.03) (pi / 3)\<rparr> else q1)
                | ArrowDown \<Rightarrow>
                    (if \<not> inHotspotMode q1
                     then q1\<lparr>inclination := max (inclination q1 - 0.03) 0.1\<rparr> else q1)
                | _ \<Rightarrow> q1)
      in snd (setTimeout (RestoreOrbitingTimeout i)
                (updateCameraPositionManual (s\<lparr>orbitParams := q2\<rparr>))))"

text \<open>
  \<^verbatim>\<open>handleKeyDown\<close>: \<open>ZoomInKey\<close> stands for \<^verbatim>\<open>+\<close> and \<^verbatim>\<open>=\<close>, \<open>ZoomOutKey\<close> for \<^verbatim>\<open>-\<close> and
  \<^verbatim>\<open>_\<close>, \<open>ResetKey\<close> for \<^verbatim>\<open>r\<close> and \<^verbatim>\<open>R\<close>.
\<close>

definition handleKeyDown :: "key \<Rightarrow> globe_state \<Rightarrow> globe_state" where
  "handleKeyDown e s =
     (case e of
        Escape \<Rightarrow> (if inHotspotMode (orbitParams s) then exitHotspotMode s else s)
      | ZoomInKey \<Rightarrow> zoom True s
      | ZoomOutKey \<Rightarrow> zoom False s
      | ResetKey \<Rightarrow> resetView s
      | OtherKey \<Rightarrow> s
      | _ \<Rightarrow> (if inHotspotMode (orbitParams s) \<and> e = ArrowDown then exitHotspotMode s
              else handleArrowNavigation e s))"

subsection \<open>Construction and runs\<close>

text \<open>
  The constructor's values; \<^verbatim>\<open>init\<close> creates the camera (field of view 60, at the
  origin) and calls \<^verbatim>\<open>updateCameraPosition\<close> once. The catalogue is handed to
  \<^verbatim>\<open>addHotspots\<close> afterwards.
\<close>

definition constructed :: globe_state where
  "constructed =
     \<lparr>orbitParams =
        \<lparr>isOrbiting = True, baseSpeed = 4 / 10000, currentSpeed = 4 / 10000,
         maxSpeed = 0.002, accelerationFactor = 1.3, decelerationFactor = 0.9,
         ellipseMajorAxis = 12, ellipseMinorAxis = 8, inclination = pi / 6,
         orbitAngle = 0, zoomLevel = 1, maxZoomLevel = 1.1, minZoomLevel = 0.6,
         inHotspotMode = False, orbitHistory = []\<rparr>,
      cameraPosition = Vec3 0 0 0, cameraFov = 60, hotspotObjects = [], tweens = [],
      timeouts = [], nextTimeoutId = 1, scanEffects = [], redirects = [],
      scrollAccumulator = 0, lastScrollTime = 0, scrollTimerId = None\<rparr>"

definition addHotspots :: "hotspot list \<Rightarrow> globe_state \<Rightarrow> globe_state" where
  "addHotspots e s = s\<lparr>hotspotObjects := e\<rparr>"

definition initial :: "hotspot list \<Rightarrow> globe_state" where
  "initial catalogue = addHotspots catalogue (updateCameraPosition constructed)"

text \<open>
  What can happen to the state: an animation frame, a wheel event, a key, a click (with
  the results of its two ray casts), the zoom and reset buttons, an exit from hotspot
  mode, a timer that fires, a rendered frame of a tween.
\<close>

datatype event =
    Frame
  | Wheel real real
  | Key key
  | Click "vec3 option" "hotspot option"
  | ZoomButton bool
  | ResetButton
  | ExitHotspot
  | TimeoutFires nat
  | TweenFrame nat real

fun step :: "globe_state \<Rightarrow> event \<Rightarrow> globe_state" where
  "step s Frame = animate s"
| "step s (Wheel deltaY now) = handleMouseWheel deltaY now s"
| "step s (Key k) = handleKeyDown k s"
| "step s (Click t i) = onMouseClick t i s"
| "step s (ZoomButton e) = zoom e s"
| "step s ResetButton = resetView s"
| "step s ExitHotspot = exitHotspotMode s"
| "step s (TimeoutFires i) = fire_timeout i s"
| "step s (TweenFrame i r) = tween_tick i r s"

definition run :: "globe_state \<Rightarrow> event list \<Rightarrow> globe_state" where
  "run s evs = foldl step s evs"

subsection \<open>Hotspot visibility and label layout\<close>

text \<open>
  Modelled from the spec: the ray-intersection query against the globe geometry,
  \<^verbatim>\<open>new Raycaster(origin, direction).intersectObject(this.globe)\<close>, which belongs to the
  rendering library and is not among the sources. The globe is the sphere of radius 2
  around the origin (\<^verbatim>\<open>createGlobe\<close> builds it with radius 2 and only ever turns it
  about its axis) and it is solid: the ray, of unit direction, meets it where it enters
  the sphere, and a ray that only touches it or starts inside it does not. The result
  is the list of the distances of the intersections from the origin of the ray, nearest
  first.
\<close>

definition intersectObject_globe :: "vec3 \<Rightarrow> vec3 \<Rightarrow> real list" where
  "intersectObject_globe origin direction =
     (let b = dot origin direction;
          c = dot origin origin - 4;
          disc = b * b - c;
          t = - b - sqrt disc
      in if disc \<le> 0 \<or> t < 0 then [] else [t])"

text \<open>
  The closure \<^verbatim>\<open>a(r)\<close> of \<^verbatim>\<open>addHotspotLabel\<close>, for the camera position \<open>cam\<close> and the
  hotspot's world position \<open>r\<close>. The projection belongs to the rendering library, so
  its result is an argument: \<open>c\<close> is the projected position in normalized device
  coordinates. The comparison \<^verbatim>\<open>h > E - .1\<close> is made on real numbers here and on
  floating-point numbers in the code; the two can differ only where \<open>h\<close> and \<open>E - 0.1\<close>
  are a rounding error apart, and for a hotspot marker they are at least 0.1 apart
  (lemma \<open>hit_margin\<close>).
\<close>

definition hotspot_visible :: "vec3 \<Rightarrow> vec3 \<Rightarrow> vec3 \<Rightarrow> bool" where
  "hotspot_visible c cam r =
     (if vz c > 1 \<or> vx c < - 1 \<or> vx c > 1 \<or> vy c < - 1 \<or> vy c > 1 then False
      else
        let p = normalize (subVectors r cam);
            m = intersectObject_globe cam p
        in case m of
             h # rest \<Rightarrow> (let E = distanceTo cam r in h > E - 0.1)
           | [] \<Rightarrow> True)"

text \<open>
  The label position \<^verbatim>\<open>(g, b)\<close> that \<^verbatim>\<open>onBeforeRender\<close> computes for a visible hotspot,
  from the projected position \<open>(cx, cy)\<close>, the window's inner width \<open>W\<close> and height \<open>H\<close>,
  and the length of the title.
\<close>

definition label_position :: "real \<Rightarrow> real \<Rightarrow> real \<Rightarrow> real \<Rightarrow> nat \<Rightarrow> real \<times> real" where
  "label_position cx cy W H title_length =
     (let p = (cx * 0.5 + 0.5) * W;
          u = (- cy * 0.5 + 0.5) * H;
          m = W / 2;
          h = H / 2;
          E = sqrt ((p - m)\<^sup>2 + (u - h)\<^sup>2);
          w = atan2 (u - h) (p - m);
          M = min m h * 0.6
      in if E < M then
           let S = M + 60 + sin (w * 5) * 20;
               g = m + cos w * S;
               b = h + sin w * S;
               f = 20;
               g1 = (if g < f then f else g);
               g2 = (if g1 > W - f then W - f else g1);
               b1 = (if b < f then f else b);
               b2 = (if b1 > H - f then H - f else b1)
           in (g2, b2)
         else
           let S = real title_length * 8;
               f = 25 + S * 0.25;
               P = 10;
               g = (if p + f + S > W - 20 then p - f - S else p + f);
               b = (if u - P - 30 < 20 then u + P else u - P)
           in (g, b))"

text \<open>
  \<^verbatim>\<open>onBeforeRender\<close>: the label is shown, at that position, when the hotspot is visible
  and the globe is not in hotspot mode; otherwise its opacity is set to 0.
\<close>

definition onBeforeRender ::
  "globe_state \<Rightarrow> vec3 \<Rightarrow> vec3 \<Rightarrow> real \<Rightarrow> real \<Rightarrow> nat \<Rightarrow> (real \<times> real) option" where
  "onBeforeRender s c r W H title_length =
     (if hotspot_visible c (cameraPosition s) r \<and> \<not> inHotspotMode (orbitParams s)
      then Some (label_position (vx c) (vy c) W H title_length)
      else None)"

text \<open>A position that keeps the 20 px margin to every edge of the window.\<close>

definition within_margin :: "real \<Rightarrow> real \<Rightarrow> real \<times> real \<Rightarrow> bool" where
  "within_margin W H gb = (20 \<le> fst gb \<and> fst gb \<le> W - 20 \<and> 20 \<le> snd gb \<and> snd gb \<le> H - 20)"

text \<open>
  The visibility rule in the specification's words, to be compared with
  \<open>hotspot_visible\<close>: not visible when the projection is outside the bounds or behind
  the camera, or when the ray from the camera through the hotspot's world position
  meets the globe at a distance less than the distance to the hotspot minus 0.1.
\<close>

definition spec_not_visible :: "vec3 \<Rightarrow> vec3 \<Rightarrow> vec3 \<Rightarrow> bool" where
  "spec_not_visible c cam r =
     (vx c < - 1 \<or> vx c > 1 \<or> vy c < - 1 \<or> vy c > 1 \<or> vz c > 1 \<or>
      (case intersectObject_globe cam (normalize (subVectors r cam)) of
         h # rest \<Rightarrow> h < distanceTo cam r - 0.1
       | [] \<Rightarrow> False))"

subsection \<open>Two entries of the hotspot catalogue\<close>

definition abysses :: hotspot where
  "abysses = \<lparr>hotspot_id = ''abysses'', title = ''Les Abysses'',
               position = \<lparr>lat = - 10.9638, lng = - 176.6333\<rparr>\<rparr>"

definition requins :: hotspot where
  "requins = \<lparr>hotspot_id = ''requins'', title = ''Requins en Danger'',
               position = \<lparr>lat = 24.287, lng = - 77.6843\<rparr>\<rparr>"

subsection \<open>Invariants\<close>

text \<open>The fields of the orbit parameters that no operation writes.\<close>

definition constants :: "globe_state \<Rightarrow> real \<times> real \<times> real \<times> real \<times> real \<times> real" where
  "constants s =
     (baseSpeed (orbitParams s), maxSpeed (orbitParams s),
      accelerationFactor (orbitParams s), decelerationFactor (orbitParams s),
      minZoomLevel (orbitParams s), maxZoomLevel (orbitParams s))"

definition in_bounds :: "real \<Rightarrow> real \<Rightarrow> real \<Rightarrow> bool" where
  "in_bounds b mx v = (b * 0.5 \<le> v \<and> v \<le> mx)"

fun tween_ok :: "real \<Rightarrow> real \<Rightarrow> tween \<Rightarrow> bool" where
  "tween_ok b mx (SpeedTween from_opt to) =
     (in_bounds b mx to \<and> (case from_opt of None \<Rightarrow> True | Some f \<Rightarrow> in_bounds b mx f))"
| "tween_ok b mx (CameraPositionTween target d cb) = True"
| "tween_ok b mx (CameraFovTween target d) = True"

definition speed_inv :: "globe_state \<Rightarrow> bool" where
  "speed_inv s =
     (let q = orbitParams s
      in 0 < baseSpeed q \<and> baseSpeed q \<le> maxSpeed q \<and>
         0 < decelerationFactor q \<and> decelerationFactor q \<le> 1 \<and>
         1 \<le> accelerationFactor q \<and>
         in_bounds (baseSpeed q) (maxSpeed q) (currentSpeed q) \<and>
         list_all (tween_ok (baseSpeed q) (maxSpeed q)) (tweens s))"

section \<open>Properties\<close>

subsection \<open>Geodesy round trip\<close>

lemma degrees_range:
  fixes a :: real
  assumes "- 90 < a" "a < 90"
  shows "- (pi / 2) < a * (pi / 180)" and "a * (pi / 180) < pi / 2"
proof -
  have p: "0 < pi / 180" by simp
  have "a * (pi / 180) < 90 * (pi / 180)"
    using assms(2) p by (rule mult_strict_right_mono)
  then show "a * (pi / 180) < pi / 2" by simp
  have "(- 90) * (pi / 180) < a * (pi / 180)"
    using assms(1) p by (rule mult_strict_right_mono)
  then show "- (pi / 2) < a * (pi / 180)" by simp
qed

lemma longitude_shifted:
  assumes "- 90 < lat g" "lat g < 90" "- 90 < lng g" "lng g < 90"
  shows "snd (surfaceToGeo (geoToSurface g)) = lng g - 180"
proof -
  define n where "n = lat g * (pi / 180)"
  define s where "s = lng g * (pi / 180)"
  have n: "- (pi / 2) < n" "n < pi / 2"
    unfolding n_def using assms(1,2) by (rule degrees_range)+
  have s: "- (pi / 2) < s" "s < pi / 2"
    unfolding s_def using assms(3,4) by (rule degrees_range)+
  have cn: "0 < cos n" using n by (rule cos_gt_zero_pi)
  have cs: "0 < cos s" using s by (rule cos_gt_zero_pi)
  have x: "0 < 2.1 * cos n * cos s" using cn cs by simp
  have "(2.1 * cos n * sin s) / (2.1 * cos n * cos s) = tan s"
    using cn cs by (simp add: tan_def)
  then have "atan2 (2.1 * cos n * sin s) (2.1 * cos n * cos s) = s"
    using x s by (simp add: atan2_def arctan_tan)
  then have "snd (surfaceToGeo (geoToSurface g)) = s * 180 / pi - 180"
    by (simp add: surfaceToGeo_def geoToSurface_def Let_def n_def s_def)
  then show ?thesis by (simp add: s_def)
qed

text \<open>
  C1. The claim: for every latitude in [-90, 90] and longitude in [-180, 180], the
  click-to-geo conversion applied to the marker position of (lat, lng) gives (lat, lng)
  back within 1e-6. On the code it does not: for latitude 0 and longitude 0 the marker
  is at (2.1, 0, 0), and the click conversion of that point is latitude 0 and longitude
  -180, since it subtracts 180 degrees from the angle that the marker formula uses
  as it is (lemma \<open>longitude_shifted\<close>: so for every longitude between -90 and 90).
\<close>

theorem geo_round_trip_origin:
  "geoToSurface \<lparr>lat = 0, lng = 0\<rparr> = Vec3 2.1 0 0 \<and>
   surfaceToGeo (geoToSurface \<lparr>lat = 0, lng = 0\<rparr>) = (Some 0, - 180) \<and>
   \<not> \<bar>snd (surfaceToGeo (geoToSurface \<lparr>lat = 0, lng = 0\<rparr>)) - 0\<bar> \<le> 1 / 1000000"
  by (simp add: geoToSurface_def surfaceToGeo_def Math_acos_def atan2_def)

subsection \<open>Arithmetic of the speed updates\<close>

lemma blend_bounds:
  fixes a b f t e :: real
  assumes "a \<le> f" "f \<le> b" "a \<le> t" "t \<le> b" "0 \<le> e" "e \<le> 1"
  shows "a \<le> f + (t - f) * e" and "f + (t - f) * e \<le> b"
proof -
  have eq: "f + (t - f) * e = (1 - e) * f + e * t" by (simp add: algebra_simps)
  have "(1 - e) * a \<le> (1 - e) * f" "e * a \<le> e * t"
    using assms by (simp_all add: mult_left_mono)
  then have "(1 - e) * a + e * a \<le> (1 - e) * f + e * t" by linarith
  then show "a \<le> f + (t - f) * e" by (simp add: eq algebra_simps)
  have "(1 - e) * f \<le> (1 - e) * b" "e * t \<le> e * b"
    using assms by (simp_all add: mult_left_mono)
  then have "(1 - e) * f + e * t \<le> (1 - e) * b + e * b" by linarith
  then show "f + (t - f) * e \<le> b" by (simp add: eq algebra_simps)
qed

lemma power2_out_range: "0 \<le> power2_out r \<and> power2_out r \<le> 1"
proof -
  define c where "c = min 1 (max 0 r)"
  have c: "0 \<le> 1 - c" "1 - c \<le> 1" by (simp_all add: c_def)
  then have "0 \<le> (1 - c) ^ 3" "(1 - c) ^ 3 \<le> 1"
    by (simp_all add: power_le_one)
  then show ?thesis by (simp add: power2_out_def c_def Let_def)
qed

lemma Math_pow_decel:
  assumes "0 < d" "d \<le> 1" "0 \<le> n"
  shows "0 \<le> Math_pow d n" and "Math_pow d n \<le> 1"
  using assms by (simp_all add: Math_pow_def powr_le1)

lemma Math_pow_accel:
  assumes "1 \<le> a" "0 \<le> n"
  shows "1 \<le> Math_pow a n"
  using assms by (simp add: Math_pow_def ge_one_powr_ge_zero)

lemma decelerate_bounds:
  fixes b v mx d n :: real
  assumes "0 < b" "b \<le> mx" "b * 0.5 \<le> v" "v \<le> mx" "0 < d" "d \<le> 1" "0 \<le> n"
  shows "b * 0.5 \<le> max (b * 0.5) (v * Math_pow d n)"
    and "max (b * 0.5) (v * Math_pow d n) \<le> mx"
proof -
  show "b * 0.5 \<le> max (b * 0.5) (v * Math_pow d n)" by simp
  have v0: "0 \<le> v" using assms by simp
  have "v * Math_pow d n \<le> v * 1"
    by (rule mult_left_mono) (use v0 Math_pow_decel(2)[OF assms(5,6,7)] in simp_all)
  then have "v * Math_pow d n \<le> mx" using assms(4) by linarith
  moreover have "b * 0.5 \<le> mx" using assms by simp
  ultimately show "max (b * 0.5) (v * Math_pow d n) \<le> mx" by simp
qed

lemma accelerate_bounds:
  fixes b v mx a n :: real
  assumes "0 < b" "b \<le> mx" "b * 0.5 \<le> v" "v \<le> mx" "1 \<le> a" "0 \<le> n"
  shows "b * 0.5 \<le> min mx (v * Math_pow a n)"
    and "min mx (v * Math_pow a n) \<le> mx"
proof -
  show "min mx (v * Math_pow a n) \<le> mx" by simp
  have v0: "0 \<le> v" using assms by simp
  have "v * 1 \<le> v * Math_pow a n"
    by (rule mult_left_mono) (use v0 Math_pow_accel[OF assms(5,6)] in simp_all)
  then have "b * 0.5 \<le> v * Math_pow a n" using assms(3) by linarith
  moreover have "b * 0.5 \<le> mx" using assms by simp
  ultimately show "b * 0.5 \<le> min mx (v * Math_pow a n)" by simp
qed


lemma list_all_remove_nth: "list_all P xs \<Longrightarrow> list_all P (remove_nth i xs)"
  unfolding remove_nth_def list_all_iff
  by (auto dest: in_set_takeD in_set_dropD)

lemma list_all_update: "list_all P xs \<Longrightarrow> P x \<Longrightarrow> list_all P (xs[i := x])"
  unfolding list_all_iff
  by (auto dest: set_update_subset_insert[THEN subsetD])

lemma list_all_nth: "list_all P xs \<Longrightarrow> i < length xs \<Longrightarrow> P (xs ! i)"
  by (simp add: list_all_length)

lemma base_in_bounds: "0 < b \<Longrightarrow> b \<le> mx \<Longrightarrow> in_bounds b mx b"
  by (simp add: in_bounds_def)

subsection \<open>Fields that are never written\<close>

lemma constants_updateCameraPosition [simp]: "constants (updateCameraPosition s) = constants s"
  by (simp add: constants_def updateCameraPosition_def Let_def)

lemma constants_updateCameraPositionManual [simp]:
  "constants (updateCameraPositionManual s) = constants s"
  by (simp add: constants_def updateCameraPositionManual_def Let_def)

lemma constants_animate [simp]: "constants (animate s) = constants s"
  by (simp add: animate_def)

lemma constants_zoom [simp]: "constants (zoom e s) = constants s"
  by (simp add: constants_def zoom_def Let_def)

lemma constants_resetView [simp]: "constants (resetView s) = constants s"
  by (simp add: constants_def resetView_def Let_def)

lemma constants_activateHotspot [simp]: "constants (activateHotspot e s) = constants s"
  by (simp add: constants_def activateHotspot_def Let_def)

lemma constants_exitHotspotMode [simp]: "constants (exitHotspotMode s) = constants s"
  by (simp add: constants_def exitHotspotMode_def setTimeout_def Let_def)

lemma constants_onMouseClick [simp]: "constants (onMouseClick t i s) = constants s"
  by (simp add: onMouseClick_def Let_def split: option.splits prod.splits)

lemma constants_handleMouseWheel [simp]: "constants (handleMouseWheel d n s) = constants s"
  by (simp add: handleMouseWheel_def)
     (simp add: constants_def setTimeout_def clearTimeout_def Let_def split: option.splits)

lemma constants_run_timeout [simp]: "constants (run_timeout cb s) = constants s"
  by (cases cb) (simp_all add: constants_def)

lemma constants_fire_timeout [simp]: "constants (fire_timeout i s) = constants s"
  by (simp add: fire_timeout_def split: option.splits)
     (simp add: constants_def clearTimeout_def)

lemma constants_tween_tick [simp]: "constants (tween_tick i r s) = constants s"
  by (simp add: tween_tick_def constants_def activateHotspot_onComplete_def Let_def
           split: tween.splits option.splits)

lemma constants_handleArrowNavigation [simp]:
  "constants (handleArrowNavigation k s) = constants s"
  by (cases k)
     (simp_all add: handleArrowNavigation_def constants_def setTimeout_def
        updateCameraPositionManual_def Let_def)

lemma constants_handleKeyDown [simp]: "constants (handleKeyDown k s) = constants s"
  by (cases k) (simp_all add: handleKeyDown_def)

lemma constants_step: "constants (step s ev) = constants s"
  by (cases ev) simp_all

lemma constants_run: "constants (run s evs) = constants s"
  unfolding run_def
  by (induction evs arbitrary: s) (simp_all add: constants_step)

lemma constants_initial:
  "constants (initial catalogue) = (4 / 10000, 0.002, 1.3, 0.9, 0.6, 1.1)"
  by (simp add: constants_def initial_def addHotspots_def updateCameraPosition_def
        constructed_def Let_def)


subsection \<open>Speed bounds\<close>

lemma speed_inv_updateCameraPosition: "speed_inv s \<Longrightarrow> speed_inv (updateCameraPosition s)"
  by (simp add: speed_inv_def updateCameraPosition_def Let_def)

lemma speed_inv_updateCameraPositionManual:
  "speed_inv s \<Longrightarrow> speed_inv (updateCameraPositionManual s)"
  by (simp add: speed_inv_def updateCameraPositionManual_def Let_def)

lemma speed_inv_animate: "speed_inv s \<Longrightarrow> speed_inv (animate s)"
  by (simp add: animate_def speed_inv_updateCameraPosition)

lemma speed_inv_zoom: "speed_inv s \<Longrightarrow> speed_inv (zoom e s)"
  by (simp add: speed_inv_def zoom_def Let_def)

lemma speed_inv_resetView: "speed_inv s \<Longrightarrow> speed_inv (resetView s)"
  by (simp add: speed_inv_def resetView_def Let_def base_in_bounds)

lemma speed_inv_activateHotspot: "speed_inv s \<Longrightarrow> speed_inv (activateHotspot e s)"
  by (simp add: speed_inv_def activateHotspot_def Let_def)

lemma speed_inv_exitHotspotMode: "speed_inv s \<Longrightarrow> speed_inv (exitHotspotMode s)"
  by (simp add: speed_inv_def exitHotspotMode_def setTimeout_def Let_def)

lemma speed_inv_onMouseClick: "speed_inv s \<Longrightarrow> speed_inv (onMouseClick t i s)"
  by (simp add: onMouseClick_def Let_def speed_inv_activateHotspot
           split: option.splits prod.splits)

lemma speed_inv_run_timeout: "speed_inv s \<Longrightarrow> speed_inv (run_timeout cb s)"
  by (cases cb) (simp_all add: speed_inv_def Let_def base_in_bounds)

lemma speed_inv_clearTimeout: "speed_inv s \<Longrightarrow> speed_inv (clearTimeout i s)"
  by (simp add: speed_inv_def clearTimeout_def Let_def)

lemma speed_inv_fire_timeout: "speed_inv s \<Longrightarrow> speed_inv (fire_timeout i s)"
  by (simp add: fire_timeout_def speed_inv_run_timeout speed_inv_clearTimeout
           split: option.splits)

lemma speed_inv_handleArrowNavigation:
  "speed_inv s \<Longrightarrow> speed_inv (handleArrowNavigation k s)"
  by (cases k)
     (simp_all add: handleArrowNavigation_def speed_inv_def setTimeout_def
        updateCameraPositionManual_def Let_def)

lemma speed_inv_handleKeyDown: "speed_inv s \<Longrightarrow> speed_inv (handleKeyDown k s)"
  by (cases k)
     (simp_all add: handleKeyDown_def speed_inv_exitHotspotMode speed_inv_zoom
        speed_inv_resetView speed_inv_handleArrowNavigation)

lemma speed_inv_batch:
  assumes "speed_inv s"
  shows "speed_inv
           (s\<lparr>orbitParams :=
                (if 0 < sgn (D::real)
                 then (orbitParams s)\<lparr>currentSpeed :=
                        max (baseSpeed (orbitParams s) * 0.5)
                            (currentSpeed (orbitParams s) *
                             Math_pow (decelerationFactor (orbitParams s)) (min (\<bar>D\<bar> / 100) 2))\<rparr>
                 else (orbitParams s)\<lparr>currentSpeed :=
                        min (maxSpeed (orbitParams s))
                            (currentSpeed (orbitParams s) *
                             Math_pow (accelerationFactor (orbitParams s)) (min (\<bar>D\<bar> / 100) 2))\<rparr>)\<rparr>)"
proof -
  let ?q = "orbitParams s" and ?n = "min (\<bar>D\<bar> / 100) 2"
  have q: "0 < baseSpeed ?q" "baseSpeed ?q \<le> maxSpeed ?q"
    "0 < decelerationFactor ?q" "decelerationFactor ?q \<le> 1" "1 \<le> accelerationFactor ?q"
    "baseSpeed ?q * 0.5 \<le> currentSpeed ?q" "currentSpeed ?q \<le> maxSpeed ?q"
    and tw: "list_all (tween_ok (baseSpeed ?q) (maxSpeed ?q)) (tweens s)"
    using assms by (simp_all add: speed_inv_def in_bounds_def Let_def)
  have n: "0 \<le> ?n" by simp
  note d = decelerate_bounds[OF q(1,2,6,7,3,4) n]
  note a = accelerate_bounds[OF q(1,2,6,7,5) n]
  show ?thesis
  proof (cases "0 < sgn D")
    case True
    then show ?thesis
      using q tw d by (simp add: speed_inv_def in_bounds_def Let_def)
  next
    case False
    then show ?thesis
      using q tw a by (simp add: speed_inv_def in_bounds_def Let_def)
  qed
qed


lemma speed_inv_cong:
  "orbitParams s' = orbitParams s \<Longrightarrow> tweens s' = tweens s \<Longrightarrow> speed_inv s' = speed_inv s"
  by (simp add: speed_inv_def)

lemma handleMouseWheel_coalesced:
  assumes "\<not> inHotspotMode (orbitParams s)"
    and "now - lastScrollTime s < 50" and "scrollTimerId s \<noteq> None"
  shows "orbitParams (handleMouseWheel deltaY now s) = orbitParams s"
    and "tweens (handleMouseWheel deltaY now s) = tweens s"
  using assms by (simp_all add: handleMouseWheel_def Let_def)

lemma handleMouseWheel_batch:
  assumes "\<not> inHotspotMode (orbitParams s)"
    and "\<not> (now - lastScrollTime s < 50 \<and> scrollTimerId s \<noteq> None)"
  shows "orbitParams (handleMouseWheel deltaY now s) =
           (if 0 < sgn (scrollAccumulator s + deltaY)
            then (orbitParams s)\<lparr>currentSpeed :=
                   max (baseSpeed (orbitParams s) * 0.5)
                       (currentSpeed (orbitParams s) *
                        Math_pow (decelerationFactor (orbitParams s))
                          (min (\<bar>scrollAccumulator s + deltaY\<bar> / 100) 2))\<rparr>
            else (orbitParams s)\<lparr>currentSpeed :=
                   min (maxSpeed (orbitParams s))
                       (currentSpeed (orbitParams s) *
                        Math_pow (accelerationFactor (orbitParams s))
                          (min (\<bar>scrollAccumulator s + deltaY\<bar> / 100) 2))\<rparr>)"
    and "tweens (handleMouseWheel deltaY now s) = tweens s"
    and "scrollAccumulator (handleMouseWheel deltaY now s) = 0"
proof -
  have c: "\<not> (now - lastScrollTime s < 50 \<and>
              scrollTimerId (s\<lparr>lastScrollTime := now,
                               scrollAccumulator := scrollAccumulator s + deltaY\<rparr>) \<noteq> None)"
    using assms(2) by simp
  show "orbitParams (handleMouseWheel deltaY now s) =
           (if 0 < sgn (scrollAccumulator s + deltaY)
            then (orbitParams s)\<lparr>currentSpeed :=
                   max (baseSpeed (orbitParams s) * 0.5)
                       (currentSpeed (orbitParams s) *
                        Math_pow (decelerationFactor (orbitParams s))
                          (min (\<bar>scrollAccumulator s + deltaY\<bar> / 100) 2))\<rparr>
            else (orbitParams s)\<lparr>currentSpeed :=
                   min (maxSpeed (orbitParams s))
                       (currentSpeed (orbitParams s) *
                        Math_pow (accelerationFactor (orbitParams s))
                          (min (\<bar>scrollAccumulator s + deltaY\<bar> / 100) 2))\<rparr>)"
    unfolding handleMouseWheel_def Let_def if_not_P[OF assms(1)] if_not_P[OF c]
    by (cases "scrollTimerId s") (simp_all add: setTimeout_def clearTimeout_def)
  show "tweens (handleMouseWheel deltaY now s) = tweens s"
    unfolding handleMouseWheel_def Let_def if_not_P[OF assms(1)] if_not_P[OF c]
    by (cases "scrollTimerId s") (simp_all add: setTimeout_def clearTimeout_def)
  show "scrollAccumulator (handleMouseWheel deltaY now s) = 0"
    unfolding handleMouseWheel_def Let_def if_not_P[OF assms(1)] if_not_P[OF c]
    by (cases "scrollTimerId s") (simp_all add: setTimeout_def clearTimeout_def)
qed

lemma speed_inv_handleMouseWheel:
  assumes "speed_inv s"
  shows "speed_inv (handleMouseWheel deltaY now s)"
proof (cases "inHotspotMode (orbitParams s)")
  case True
  then show ?thesis
    using assms by (simp add: handleMouseWheel_def speed_inv_zoom)
next
  case mode: False
  show ?thesis
  proof (cases "now - lastScrollTime s < 50 \<and> scrollTimerId s \<noteq> None")
    case True
    then have "speed_inv (handleMouseWheel deltaY now s) = speed_inv s"
      using mode by (intro speed_inv_cong handleMouseWheel_coalesced) simp_all
    then show ?thesis using assms by simp
  next
    case False
    let ?D = "scrollAccumulator s + deltaY"
    note b = handleMouseWheel_batch[OF mode False, of deltaY]
    have "speed_inv (handleMouseWheel deltaY now s) =
          speed_inv (s\<lparr>orbitParams := orbitParams (handleMouseWheel deltaY now s)\<rparr>)"
      by (rule speed_inv_cong) (simp_all add: b(2))
    also have "\<dots>" unfolding b(1) by (rule speed_inv_batch[OF assms])
    finally show ?thesis .
  qed
qed

lemma speed_inv_tween_tick:
  assumes "speed_inv s"
  shows "speed_inv (tween_tick i r s)"
proof (cases "length (tweens s) \<le> i")
  case True
  then show ?thesis using assms by (simp add: tween_tick_def)
next
  case False
  then have i: "i < length (tweens s)" by simp
  let ?q = "orbitParams s"
  let ?b = "baseSpeed ?q" and ?mx = "maxSpeed ?q"
  have q: "0 < ?b" "?b \<le> ?mx" "in_bounds ?b ?mx (currentSpeed ?q)"
    and tw: "list_all (tween_ok ?b ?mx) (tweens s)"
    using assms by (simp_all add: speed_inv_def Let_def)
  have ok: "tween_ok ?b ?mx (tweens s ! i)" by (rule list_all_nth[OF tw i])
  note rm = list_all_remove_nth[OF tw, of i]
  show ?thesis
  proof (cases "tweens s ! i")
    case (CameraPositionTween target d cb)
    then show ?thesis
      using assms False rm
      by (simp add: tween_tick_def speed_inv_def activateHotspot_onComplete_def Let_def
               split: option.splits)
  next
    case (CameraFovTween target d)
    then show ?thesis
      using assms False rm by (simp add: tween_tick_def speed_inv_def Let_def)
  next
    case (SpeedTween from_opt to)
    define f0 where "f0 = (case from_opt of None \<Rightarrow> currentSpeed ?q | Some f \<Rightarrow> f)"
    have to: "in_bounds ?b ?mx to" using ok SpeedTween by simp
    have f0: "in_bounds ?b ?mx f0"
      using ok SpeedTween q(3) by (simp add: f0_def split: option.splits)
    have e: "0 \<le> power2_out r" "power2_out r \<le> 1" using power2_out_range by simp_all
    have v: "in_bounds ?b ?mx (f0 + (to - f0) * power2_out r)"
      using blend_bounds[of "?b * 0.5" f0 ?mx to "power2_out r"] f0 to e
      by (simp add: in_bounds_def)
    have up: "list_all (tween_ok ?b ?mx) ((tweens s)[i := SpeedTween (Some f0) to])"
      by (rule list_all_update[OF tw]) (simp add: f0 to)
    show ?thesis
      using assms False SpeedTween v rm up
      by (simp add: tween_tick_def speed_inv_def Let_def f0_def)
  qed
qed

lemma speed_inv_step: "speed_inv s \<Longrightarrow> speed_inv (step s ev)"
  by (cases ev)
     (simp_all add: speed_inv_animate speed_inv_handleMouseWheel speed_inv_handleKeyDown
        speed_inv_onMouseClick speed_inv_zoom speed_inv_resetView speed_inv_exitHotspotMode
        speed_inv_fire_timeout speed_inv_tween_tick)

lemma speed_inv_run: "speed_inv s \<Longrightarrow> speed_inv (run s evs)"
  unfolding run_def
  by (induction evs arbitrary: s) (simp_all add: speed_inv_step)

lemma speed_inv_initial: "speed_inv (initial catalogue)"
  by (simp add: speed_inv_def initial_def addHotspots_def updateCameraPosition_def
        constructed_def in_bounds_def Let_def)

text \<open>
  C2. In every state that the globe reaches from its construction, by any sequence of
  animation frames, wheel events (in either direction, coalesced or not), keys, clicks,
  button presses, exits from hotspot mode, timers (the quiet-period timer and the exit
  timer among them) and tween frames (the restoration of the speed among them), the
  current speed is at least half the base speed and at most the maximal speed.
\<close>
theorem current_speed_bounded:
  "baseSpeed (orbitParams (run (initial catalogue) evs)) * 0.5
     \<le> currentSpeed (orbitParams (run (initial catalogue) evs)) \<and>
   currentSpeed (orbitParams (run (initial catalogue) evs))
     \<le> maxSpeed (orbitParams (run (initial catalogue) evs))"
  using speed_inv_run[OF speed_inv_initial, of catalogue evs]
  by (simp add: speed_inv_def in_bounds_def Let_def)

subsection \<open>Focus, zoom and camera paths\<close>

lemma initial_fields:
  "orbitParams (initial cat) =
     \<lparr>isOrbiting = True, baseSpeed = 4 / 10000, currentSpeed = 4 / 10000,
      maxSpeed = 0.002, accelerationFactor = 1.3, decelerationFactor = 0.9,
      ellipseMajorAxis = 12, ellipseMinorAxis = 8, inclination = pi / 6,
      orbitAngle = 4 / 10000, zoomLevel = 1, maxZoomLevel = 1.1, minZoomLevel = 0.6,
      inHotspotMode = False, orbitHistory = [Vec3 12 0 0]\<rparr>"
  "cameraPosition (initial cat) = Vec3 12 0 0"
  "cameraFov (initial cat) = 60"
  "hotspotObjects (initial cat) = cat"
  "tweens (initial cat) = []"
  "timeouts (initial cat) = []"
  "nextTimeoutId (initial cat) = 1"
  "scanEffects (initial cat) = []"
  "redirects (initial cat) = []"
  "scrollAccumulator (initial cat) = 0"
  "lastScrollTime (initial cat) = 0"
  "scrollTimerId (initial cat) = None"
  by (simp_all add: initial_def addHotspots_def updateCameraPosition_def constructed_def Let_def)

lemma activateHotspot_locked:
  "inHotspotMode (orbitParams s) \<Longrightarrow> activateHotspot e s = s"
  by (simp add: activateHotspot_def)

lemma activateHotspot_twice_redirects:
  "redirects (run (initial [abysses, requins])
      [Click None (Some abysses), Click None (Some requins), TweenFrame 0 1, TweenFrame 1 1])
   = [abysses, requins]"
  by (simp add: run_def onMouseClick_def activateHotspot_def initial_fields Let_def
        tween_tick_def remove_nth_def activateHotspot_onComplete_def)

text \<open>
  C3. The claim: \<^verbatim>\<open>activateHotspot\<close> called while a focus transition is in flight or while
  locked leaves the whole state unchanged. While locked it does (lemma
  \<open>activateHotspot_locked\<close>). During the transition it does not: after a first
  activation the orbit is stopped and \<^verbatim>\<open>inHotspotMode\<close> is still unset, and a second
  activation starts a second scan effect and two more tweens; when both camera tweens
  have ended, both hotspots have been passed to the redirect.
\<close>
theorem activateHotspot_during_transition:
  "\<not> isOrbiting (orbitParams (activateHotspot abysses (initial [abysses, requins]))) \<and>
   \<not> inHotspotMode (orbitParams (activateHotspot abysses (initial [abysses, requins]))) \<and>
   scanEffects (activateHotspot abysses (initial [abysses, requins])) = [position abysses] \<and>
   scanEffects (activateHotspot requins (activateHotspot abysses (initial [abysses, requins])))
     = [position abysses, position requins] \<and>
   length (tweens (activateHotspot abysses (initial [abysses, requins]))) = 2 \<and>
   length (tweens (activateHotspot requins
             (activateHotspot abysses (initial [abysses, requins])))) = 4 \<and>
   activateHotspot requins (activateHotspot abysses (initial [abysses, requins]))
     \<noteq> activateHotspot abysses (initial [abysses, requins]) \<and>
   redirects (run (initial [abysses, requins])
      [Click None (Some abysses), Click None (Some requins), TweenFrame 0 1, TweenFrame 1 1])
     = [abysses, requins]"
proof -
  let ?s1 = "activateHotspot abysses (initial [abysses, requins])"
  have a: "\<not> isOrbiting (orbitParams ?s1)" "\<not> inHotspotMode (orbitParams ?s1)"
    "scanEffects ?s1 = [position abysses]" "length (tweens ?s1) = 2"
    by (simp_all add: activateHotspot_def initial_fields Let_def)
  have b: "scanEffects (activateHotspot requins ?s1) = [position abysses, position requins]"
    "length (tweens (activateHotspot requins ?s1)) = 4"
    using a by (simp_all add: activateHotspot_def[of requins] Let_def)
  have "length (tweens (activateHotspot requins ?s1)) \<noteq> length (tweens ?s1)"
    using a(4) b(2) by simp
  then have "activateHotspot requins ?s1 \<noteq> ?s1" by metis
  then show ?thesis using a b activateHotspot_twice_redirects by simp
qed

text \<open>
  C4. A zoom call multiplies the zoom level by 0.85 (zoom in) or 1.15 (zoom out) and
  clamps the product to the two bounds; from a zoom level within the bounds, any
  sequence of zoom calls leaves it within the bounds.
\<close>
theorem zoom_level_bounded:
  assumes "minZoomLevel (orbitParams s) \<le> maxZoomLevel (orbitParams s)"
    and "minZoomLevel (orbitParams s) \<le> zoomLevel (orbitParams s)"
    and "zoomLevel (orbitParams s) \<le> maxZoomLevel (orbitParams s)"
  shows "zoomLevel (orbitParams (zoom e s)) =
           min (max (zoomLevel (orbitParams s) * (if e then 0.85 else 1.15))
                    (minZoomLevel (orbitParams s)))
               (maxZoomLevel (orbitParams s)) \<and>
         minZoomLevel (orbitParams s) \<le> zoomLevel (orbitParams (foldl (\<lambda>s e. zoom e s) s es)) \<and>
         zoomLevel (orbitParams (foldl (\<lambda>s e. zoom e s) s es)) \<le> maxZoomLevel (orbitParams s)"
proof -
  have step: "zoomLevel (orbitParams (zoom e s)) =
           min (max (zoomLevel (orbitParams s) * (if e then 0.85 else 1.15))
                    (minZoomLevel (orbitParams s)))
               (maxZoomLevel (orbitParams s))" for e s
    by (simp add: zoom_def Let_def)
  have "minZoomLevel (orbitParams (foldl (\<lambda>s e. zoom e s) s es)) = minZoomLevel (orbitParams s) \<and>
        maxZoomLevel (orbitParams (foldl (\<lambda>s e. zoom e s) s es)) = maxZoomLevel (orbitParams s) \<and>
        minZoomLevel (orbitParams s) \<le> zoomLevel (orbitParams (foldl (\<lambda>s e. zoom e s) s es)) \<and>
        zoomLevel (orbitParams (foldl (\<lambda>s e. zoom e s) s es)) \<le> maxZoomLevel (orbitParams s)"
    using assms
  proof (induction es arbitrary: s)
    case Nil
    then show ?case by simp
  next
    case (Cons a es)
    have c: "minZoomLevel (orbitParams (zoom a s)) = minZoomLevel (orbitParams s)"
      "maxZoomLevel (orbitParams (zoom a s)) = maxZoomLevel (orbitParams s)"
      by (simp_all add: zoom_def Let_def)
    have z: "minZoomLevel (orbitParams s) \<le> zoomLevel (orbitParams (zoom a s))"
      "zoomLevel (orbitParams (zoom a s)) \<le> maxZoomLevel (orbitParams s)"
      using Cons.prems(1) by (simp_all add: step)
    show ?case
      using Cons.IH[of "zoom a s"] Cons.prems(1) c z by simp
  qed
  then show ?thesis using step by simp
qed

theorem zoom_level_bounded_witness:
  "minZoomLevel (orbitParams (initial [])) \<le> maxZoomLevel (orbitParams (initial [])) \<and>
   minZoomLevel (orbitParams (initial [])) \<le> zoomLevel (orbitParams (initial [])) \<and>
   zoomLevel (orbitParams (initial [])) \<le> maxZoomLevel (orbitParams (initial [])) \<and>
   zoomLevel (orbitParams (zoom False (initial []))) = 1.1 \<and>
   0.6 \<le> zoomLevel (orbitParams (foldl (\<lambda>s e. zoom e s) (initial []) [True, True, True, True])) \<and>
   zoomLevel (orbitParams (foldl (\<lambda>s e. zoom e s) (initial []) [True, True, True, True])) \<le> 1.1"
  using zoom_level_bounded[of "initial []" False "[True, True, True, True]"]
  by (simp add: initial_fields)

text \<open>
  C10. A zoom call writes, of the orbit parameters, only the zoom level: angle, current
  and base speed, inclination, ellipse axes and hotspot-mode flag keep their values.
  Besides it only starts a camera tween, whose target is the camera position with each
  coordinate multiplied by the step factor and whose end puts the camera there; no
  other part of the state changes.
\<close>
theorem zoom_frame:
  "orbitParams (zoom e s) =
     (orbitParams s)\<lparr>zoomLevel := zoomLevel (orbitParams (zoom e s))\<rparr> \<and>
   orbitAngle (orbitParams (zoom e s)) = orbitAngle (orbitParams s) \<and>
   currentSpeed (orbitParams (zoom e s)) = currentSpeed (orbitParams s) \<and>
   baseSpeed (orbitParams (zoom e s)) = baseSpeed (orbitParams s) \<and>
   inclination (orbitParams (zoom e s)) = inclination (orbitParams s) \<and>
   ellipseMajorAxis (orbitParams (zoom e s)) = ellipseMajorAxis (orbitParams s) \<and>
   ellipseMinorAxis (orbitParams (zoom e s)) = ellipseMinorAxis (orbitParams s) \<and>
   inHotspotMode (orbitParams (zoom e s)) = inHotspotMode (orbitParams s) \<and>
   tweens (zoom e s) =
     tweens s @ [CameraPositionTween
                   (multiplyScalar (cameraPosition s) (if e then 0.85 else 1.15)) 0.5 None] \<and>
   cameraPosition (tween_tick (length (tweens s)) 1 (zoom e s)) =
     multiplyScalar (cameraPosition s) (if e then 0.85 else 1.15) \<and>
   zoom e s = s\<lparr>orbitParams := orbitParams (zoom e s), tweens := tweens (zoom e s)\<rparr>"
  by (simp add: zoom_def Let_def multiplyScalar_def tween_tick_def)

text \<open>
  C7. With equal orbit angle, ellipse axes, zoom level and inclination, the time-driven
  update (while orbiting) and the manual update put the camera at the same position.
\<close>
theorem camera_paths_agree:
  assumes "isOrbiting (orbitParams s)"
    and "orbitAngle (orbitParams s') = orbitAngle (orbitParams s)"
    and "ellipseMajorAxis (orbitParams s') = ellipseMajorAxis (orbitParams s)"
    and "ellipseMinorAxis (orbitParams s') = ellipseMinorAxis (orbitParams s)"
    and "zoomLevel (orbitParams s') = zoomLevel (orbitParams s)"
    and "inclination (orbitParams s') = inclination (orbitParams s)"
  shows "cameraPosition (updateCameraPosition s) = cameraPosition (updateCameraPositionManual s')"
  using assms by (simp add: updateCameraPosition_def updateCameraPositionManual_def Let_def)

theorem camera_paths_agree_witness:
  "isOrbiting (orbitParams constructed) \<and>
   cameraPosition (updateCameraPosition constructed) = Vec3 12 0 0 \<and>
   cameraPosition (updateCameraPosition constructed) =
   cameraPosition (updateCameraPositionManual
                     (constructed\<lparr>cameraPosition := Vec3 1 2 3, cameraFov := 40\<rparr>))"
  using camera_paths_agree[of constructed "constructed\<lparr>cameraPosition := Vec3 1 2 3, cameraFov := 40\<rparr>"]
  by (simp add: constructed_def updateCameraPosition_def Let_def)

subsection \<open>Wheel batches, visibility, label layout and speed factors\<close>




lemma distanceTo_length: "distanceTo cam r = vec_length (subVectors r cam)"
  by (simp add: distanceTo_def vec_length_def subVectors_def power2_eq_square algebra_simps)

lemma dot_geoToSurface: "dot (geoToSurface g) (geoToSurface g) = 4.41"
proof -
  define n where "n = lat g * (pi / 180)"
  define s where "s = lng g * (pi / 180)"
  have "(cos n * cos s)\<^sup>2 + (sin n)\<^sup>2 + (cos n * sin s)\<^sup>2 =
        (cos n)\<^sup>2 * ((cos s)\<^sup>2 + (sin s)\<^sup>2) + (sin n)\<^sup>2"
    by (simp only: power_mult_distrib distrib_left add_ac)
  also have "\<dots> = (cos n)\<^sup>2 + (sin n)\<^sup>2"
    by (simp only: sin_cos_squared_add2 mult_1_right)
  also have "\<dots> = 1" by (rule sin_cos_squared_add2)
  finally have "(cos n * cos s)\<^sup>2 + (sin n)\<^sup>2 + (cos n * sin s)\<^sup>2 = 1" .
  then have "2.1 * 2.1 * ((cos n * cos s)\<^sup>2 + (sin n)\<^sup>2 + (cos n * sin s)\<^sup>2) = 4.41"
    by simp
  then show ?thesis
    by (simp add: dot_def geoToSurface_def Let_def n_def s_def power2_eq_square algebra_simps)
qed

lemma product_margin:
  fixes x s :: real
  assumes "x * (x - 2 * s) = 0.41" "0 < s"
  shows "x < 0 \<or> 0.64 < x"
proof (rule ccontr)
  assume "\<not> (x < 0 \<or> 0.64 < x)"
  then have x: "0 \<le> x" "x \<le> 0.64" by simp_all
  have "x * (x - 2 * s) \<le> x * x"
    using x(1) assms(2) by (intro mult_left_mono) simp_all
  also have "x * x \<le> 0.64 * 0.64"
    using x by (intro mult_mono) simp_all
  finally show False using assms(1) by simp
qed

lemma hit_margin:
  assumes r: "dot r r = 4.41"
    and hit: "intersectObject_globe cam (normalize (subVectors r cam)) = h # rest"
  shows "distanceTo cam r < h \<or> h + 0.64 < distanceTo cam r"
proof -
  define v where "v = subVectors r cam"
  define E where "E = vec_length v"
  define d where "d = normalize v"
  define b where "b = dot cam d"
  define c where "c = dot cam cam - 4"
  have nn: "0 \<le> dot v v" by (simp add: dot_def)
  have vl: "vec_length v = sqrt (dot v v)" by (simp add: vec_length_def dot_def)
  have E2: "E * E = dot v v" using nn by (simp add: E_def vl)
  have E0: "0 \<le> E" by (simp add: E_def vec_length_def)
  have sum: "dot r r = dot cam cam + 2 * dot cam v + dot v v"
    by (simp add: v_def dot_def subVectors_def algebra_simps)
  from hit have disc: "0 < b * b - c" and h: "h = - b - sqrt (b * b - c)"
    unfolding intersectObject_globe_def Let_def b_def c_def d_def v_def
    by (simp_all split: if_splits)
  have Epos: "E \<noteq> 0"
  proof
    assume "E = 0"
    then have "d = Vec3 (vx v) (vy v) (vz v)"
      by (simp add: d_def normalize_def E_def Let_def)
    moreover have "dot v v = 0" using E2 \<open>E = 0\<close> by simp
    then have "vx v = 0 \<and> vy v = 0 \<and> vz v = 0"
      by (simp add: dot_def sum_squares_eq_zero_iff add_nonneg_eq_0_iff)
    ultimately have "b = 0" by (simp add: b_def dot_def)
    moreover have "c = 0.41"
      using r sum \<open>dot v v = 0\<close> \<open>vx v = 0 \<and> vy v = 0 \<and> vz v = 0\<close>
      by (simp add: c_def dot_def)
    ultimately show False using disc by simp
  qed
  then have dE: "d = Vec3 (vx v / E) (vy v / E) (vz v / E)"
    by (simp add: d_def normalize_def E_def Let_def)
  have bE: "b * E = dot cam v"
    using Epos by (simp add: b_def dE dot_def field_simps)
  have key: "E * E + 2 * b * E + c = 0.41"
    using r sum E2 bE by (simp add: c_def)
  define s where "s = sqrt (b * b - c)"
  have s: "0 < s" "s * s = b * b - c" using disc by (simp_all add: s_def)
  define x where "x = E - h"
  have "x * (x - 2 * s) = E * E + 2 * b * E + (b * b - s * s)"
    by (simp add: x_def h s_def[symmetric] algebra_simps)
  also have "\<dots> = 0.41" using key s(2) by simp
  finally have "x < 0 \<or> 0.64 < x" using s(1) by (rule product_margin)
  then show ?thesis
    by (auto simp add: x_def distanceTo_length v_def[symmetric] E_def[symmetric])
qed


lemma ray_along_x_axis:
  assumes "\<bar>a\<bar> < 12"
  shows "intersectObject_globe (Vec3 12 0 0) (normalize (subVectors (Vec3 a 0 0) (Vec3 12 0 0))) = [10]"
    and "distanceTo (Vec3 12 0 0) (Vec3 a 0 0) = 12 - a"
proof -
  have l: "vec_length (Vec3 (a - 12) 0 0) = 12 - a"
    using assms by (simp add: vec_length_def)
  have "normalize (subVectors (Vec3 a 0 0) (Vec3 12 0 0)) = Vec3 (- 1) 0 0"
    using assms by (simp add: normalize_def subVectors_def l Let_def field_simps)
  then show "intersectObject_globe (Vec3 12 0 0)
               (normalize (subVectors (Vec3 a 0 0) (Vec3 12 0 0))) = [10]"
    by (simp add: intersectObject_globe_def dot_def Let_def)
  show "distanceTo (Vec3 12 0 0) (Vec3 a 0 0) = 12 - a"
    using assms by (simp add: distanceTo_def)
qed

text \<open>
  C6. Outside hotspot mode, the label of a hotspot marker is hidden exactly when the
  marker is not visible in the specification's sense: its projection is outside
  \<open>[-1, 1]\<close> on the x or the y axis, or behind the camera (depth beyond 1), or the ray
  from the camera through the marker meets the globe at a distance less than the
  camera-to-marker distance minus 0.1; otherwise it is shown. The nearest intersection
  is never near that threshold: it is either beyond the marker or more than 0.64
  before it, so neither the strictness of the comparison nor its rounding matters.
\<close>

theorem hotspot_hidden_iff_spec:
  assumes "\<not> inHotspotMode (orbitParams s)"
  shows "(\<not> hotspot_visible c (cameraPosition s) (geoToSurface g)) =
           spec_not_visible c (cameraPosition s) (geoToSurface g) \<and>
         (onBeforeRender s c (geoToSurface g) W H n = None) =
           spec_not_visible c (cameraPosition s) (geoToSurface g) \<and>
         (case intersectObject_globe (cameraPosition s)
                 (normalize (subVectors (geoToSurface g) (cameraPosition s))) of
            [] \<Rightarrow> True
          | h # rest \<Rightarrow> distanceTo (cameraPosition s) (geoToSurface g) < h \<or>
                        h + 0.64 < distanceTo (cameraPosition s) (geoToSurface g))"
proof -
  let ?cam = "cameraPosition s" and ?r = "geoToSurface g"
  let ?m = "intersectObject_globe ?cam (normalize (subVectors ?r ?cam))"
  have margin: "distanceTo ?cam ?r < h \<or> h + 0.64 < distanceTo ?cam ?r"
    if "?m = h # rest" for h rest
    using dot_geoToSurface that by (rule hit_margin)
  have vis: "(\<not> hotspot_visible c ?cam ?r) = spec_not_visible c ?cam ?r"
  proof (cases ?m)
    case Nil
    then show ?thesis
      by (auto simp add: hotspot_visible_def spec_not_visible_def Let_def)
  next
    case (Cons h rest)
    from margin[OF Cons] show ?thesis
      using Cons by (auto simp add: hotspot_visible_def spec_not_visible_def Let_def)
  qed
  have lab: "(onBeforeRender s c ?r W H n = None) = (\<not> hotspot_visible c ?cam ?r)"
    using assms by (simp add: onBeforeRender_def)
  have "case ?m of [] \<Rightarrow> True
        | h # rest \<Rightarrow> distanceTo ?cam ?r < h \<or> h + 0.64 < distanceTo ?cam ?r"
    using margin by (cases ?m) simp_all
  then show ?thesis using vis lab by simp
qed

theorem hotspot_hidden_iff_spec_witness:
  "\<not> inHotspotMode (orbitParams (initial [])) \<and>
   geoToSurface \<lparr>lat = 0, lng = 0\<rparr> = Vec3 2.1 0 0 \<and>
   geoToSurface \<lparr>lat = 0, lng = 180\<rparr> = Vec3 (- 2.1) 0 0 \<and>
   \<not> spec_not_visible (Vec3 0 0 0) (cameraPosition (initial [])) (geoToSurface \<lparr>lat = 0, lng = 0\<rparr>) \<and>
   onBeforeRender (initial []) (Vec3 0 0 0) (geoToSurface \<lparr>lat = 0, lng = 0\<rparr>) 1920 1080 11
     \<noteq> None \<and>
   spec_not_visible (Vec3 0 0 0) (cameraPosition (initial [])) (geoToSurface \<lparr>lat = 0, lng = 180\<rparr>) \<and>
   onBeforeRender (initial []) (Vec3 0 0 0) (geoToSurface \<lparr>lat = 0, lng = 180\<rparr>) 1920 1080 11
     = None"
proof -
  have g: "geoToSurface \<lparr>lat = 0, lng = 0\<rparr> = Vec3 2.1 0 0"
    "geoToSurface \<lparr>lat = 0, lng = 180\<rparr> = Vec3 (- 2.1) 0 0"
    by (simp_all add: geoToSurface_def)
  have near: "\<not> spec_not_visible (Vec3 0 0 0) (Vec3 12 0 0) (Vec3 2.1 0 0)"
    by (simp add: spec_not_visible_def ray_along_x_axis)
  have far: "spec_not_visible (Vec3 0 0 0) (Vec3 12 0 0) (Vec3 (- 2.1) 0 0)"
    by (simp add: spec_not_visible_def ray_along_x_axis)
  show ?thesis
    using hotspot_hidden_iff_spec[of "initial []" "Vec3 0 0 0" "\<lparr>lat = 0, lng = 0\<rparr>" 1920 1080 11]
      hotspot_hidden_iff_spec[of "initial []" "Vec3 0 0 0" "\<lparr>lat = 0, lng = 180\<rparr>" 1920 1080 11]
      near far
    by (simp add: initial_fields g)
qed

lemma sqrt_25600: "sqrt (25600::real) = 160"
  by (rule real_sqrt_unique) simp_all

text \<open>
  C8. The claim: the label position keeps a 20 px margin to the window's edges in both
  layout branches. The branch inside the clear zone clamps (lemma
  \<open>label_clear_zone_within_margin\<close>); the other branch does not: in a window of
  400 by 800, for a marker projected at (0, 0.4), that is at pixel (200, 240) and
  outside the clear zone, and a title of 25 characters, the label is placed at
  x = -75, left of the window.
\<close>
theorem label_outside_margin:
  "label_position 0 0.4 400 800 25 = (- 75, 230) \<and>
   \<not> within_margin 400 800 (label_position 0 0.4 400 800 25)"
  by (simp add: label_position_def within_margin_def Let_def sqrt_25600)

lemma label_clear_zone_within_margin:
  assumes "40 \<le> W" "40 \<le> H"
    and "sqrt (((cx * 0.5 + 0.5) * W - W / 2)\<^sup>2 + ((- cy * 0.5 + 0.5) * H - H / 2)\<^sup>2)
           < min (W / 2) (H / 2) * 0.6"
  shows "within_margin W H (label_position cx cy W H n)"
  using assms by (simp add: label_position_def within_margin_def Let_def)

theorem speed_factors_counterexample:
  "\<not> (1 < accelerationFactor (orbitParams constructed) \<and>
      1 < decelerationFactor (orbitParams constructed))"
  by (simp add: constructed_def)

text \<open>
  C9, amended. In every reachable state the acceleration factor is greater than 1 and
  the deceleration factor lies strictly between 0 and 1 (the constructor sets 1.3 and
  0.9 and nothing writes them). The claim has both factors greater than 1.
\<close>
theorem speed_factors:
  "1 < accelerationFactor (orbitParams (run (initial catalogue) evs)) \<and>
   0 < decelerationFactor (orbitParams (run (initial catalogue) evs)) \<and>
   decelerationFactor (orbitParams (run (initial catalogue) evs)) < 1"
  using constants_run[of "initial catalogue" evs] constants_initial[of catalogue]
  by (simp add: constants_def)

end
